theory Spec2Isabelle
  imports Complex_Main "HOL-Library.Sublist" "HOL-Library.Word"
begin

unbundle bit_operations_syntax

section \<open>Strings and regular expressions of the host language\<close>

text \<open>
  The repository is JavaScript. A string is modelled as a list of code units below 256
  (\<open>string\<close>), which covers ASCII and Latin-1 source text. Regular expressions are
  modelled by a syntax tree and a backtracking matcher that returns every way a pattern
  matches at a position, in the priority order of the JavaScript matcher (greedy prev
  skip, left alternative prev right); the head of that list is the match JavaScript
  reports.
\<close>

definition is_digit :: "char \<Rightarrow> bool" where
  "is_digit c = (48 \<le> (of_char c :: nat) \<and> (of_char c :: nat) \<le> 57)"

definition is_word :: "char \<Rightarrow> bool" where
  "is_word c = ((97 \<le> (of_char c :: nat) \<and> (of_char c :: nat) \<le> 122)
     \<or> (65 \<le> (of_char c :: nat) \<and> (of_char c :: nat) \<le> 90)
     \<or> is_digit c \<or> c = CHR ''_'')"

definition is_line_terminator :: "char \<Rightarrow> bool" where
  "is_line_terminator c = (c = CHR 0x0A \<or> c = CHR 0x0D)"

definition is_space :: "char \<Rightarrow> bool" where
  "is_space c = (c = CHR 0x09 \<or> c = CHR 0x0A \<or> c = CHR 0x0B \<or> c = CHR 0x0C \<or> c = CHR 0x0D
     \<or> c = CHR 0x20 \<or> c = CHR 0xA0)"

datatype cls = CDigit | CWord | CSpace | CNotSpace | CChar char

fun in_cls :: "char \<Rightarrow> cls \<Rightarrow> bool" where
  "in_cls c CDigit = is_digit c"
| "in_cls c CWord = is_word c"
| "in_cls c CSpace = is_space c"
| "in_cls c CNotSpace = (\<not> is_space c)"
| "in_cls c (CChar d) = (c = d)"

datatype re =
    Chr char
  | AnyChar
  | Cls "cls list"
  | NCls "cls list"
  | Eps
  | Seq re re
  | Alt re re
  | Star re
  | StarLazy re
  | Opt re
  | Grp nat re
  | Bref nat
  | Look re
  | NLook re
  | WordB
  | Bol
  | Eol
  | EolM

record mstate =
  prev :: string
  rest :: string
  caps :: "nat \<rightharpoonup> string"

definition advance :: "mstate \<Rightarrow> mstate" where
  "advance s = (case rest s of [] \<Rightarrow> s | c # cs \<Rightarrow> s\<lparr>prev := c # prev s, rest := cs\<rparr>)"

definition step_if :: "(char \<Rightarrow> bool) \<Rightarrow> mstate \<Rightarrow> mstate list" where
  "step_if p s = (case rest s of [] \<Rightarrow> [] | c # cs \<Rightarrow> if p c then [advance s] else [])"

fun groups_of :: "re \<Rightarrow> nat list" where
  "groups_of (Seq a b) = groups_of a @ groups_of b"
| "groups_of (Alt a b) = groups_of a @ groups_of b"
| "groups_of (Star r) = groups_of r"
| "groups_of (StarLazy r) = groups_of r"
| "groups_of (Opt r) = groups_of r"
| "groups_of (Grp k r) = k # groups_of r"
| "groups_of (Look r) = groups_of r"
| "groups_of (NLook r) = groups_of r"
| "groups_of _ = []"

definition clear_caps :: "nat list \<Rightarrow> mstate \<Rightarrow> mstate" where
  "clear_caps ks s = s\<lparr>caps := (\<lambda>k. if k \<in> set ks then None else caps s k)\<rparr>"

definition consumed :: "mstate \<Rightarrow> mstate \<Rightarrow> string" where
  "consumed s s' = take (length (rest s) - length (rest s')) (rest s)"

function (sequential) rm :: "re \<Rightarrow> mstate \<Rightarrow> mstate list" where
  "rm (Chr c) s = step_if (\<lambda>x. x = c) s"
| "rm AnyChar s = step_if (\<lambda>x. \<not> is_line_terminator x) s"
| "rm (Cls cs) s = step_if (\<lambda>x. list_ex (in_cls x) cs) s"
| "rm (NCls cs) s = step_if (\<lambda>x. \<not> list_ex (in_cls x) cs) s"
| "rm Eps s = [s]"
| "rm (Seq a b) s = concat (map (rm b) (rm a s))"
| "rm (Alt a b) s = rm a s @ rm b s"
| "rm (Star r) s =
     concat (map (\<lambda>s'. if length (rest s') < length (rest s) then rm (Star r) s' else [])
                 (rm r (clear_caps (groups_of r) s))) @ [s]"
| "rm (StarLazy r) s =
     s # concat (map (\<lambda>s'. if length (rest s') < length (rest s) then rm (StarLazy r) s' else [])
                     (rm r (clear_caps (groups_of r) s)))"
| "rm (Opt r) s =
     filter (\<lambda>s'. length (rest s') < length (rest s)) (rm r (clear_caps (groups_of r) s)) @ [s]"
| "rm (Grp k r) s = map (\<lambda>s'. s'\<lparr>caps := (caps s')(k \<mapsto> consumed s s')\<rparr>) (rm r s)"
| "rm (Bref k) s =
     (case caps s k of
        None \<Rightarrow> [s]
      | Some t \<Rightarrow> if prefix t (rest s)
                  then [s\<lparr>prev := rev t @ prev s, rest := drop (length t) (rest s)\<rparr>]
                  else [])"
| "rm (Look r) s = (case rm r s of [] \<Rightarrow> [] | s' # _ \<Rightarrow> [s\<lparr>caps := caps s'\<rparr>])"
| "rm (NLook r) s = (case rm r s of [] \<Rightarrow> [s] | _ # _ \<Rightarrow> [])"
| "rm WordB s =
     (let a = (case prev s of [] \<Rightarrow> False | c # _ \<Rightarrow> is_word c);
          b = (case rest s of [] \<Rightarrow> False | c # _ \<Rightarrow> is_word c)
      in if a \<noteq> b then [s] else [])"
| "rm Bol s = (if prev s = [] then [s] else [])"
| "rm Eol s = (if rest s = [] then [s] else [])"
| "rm EolM s = (case rest s of [] \<Rightarrow> [s] | c # _ \<Rightarrow> if is_line_terminator c then [s] else [])"
  by pat_completeness auto
termination
  by (relation "measures [\<lambda>(r, s). size r, \<lambda>(r, s). length (rest s)]") auto

definition Plus :: "re \<Rightarrow> re" where
  "Plus r = Seq r (Star r)"

fun Lit :: "string \<Rightarrow> re" where
  "Lit [] = Eps"
| "Lit [c] = Chr c"
| "Lit (c # cs) = Seq (Chr c) (Lit cs)"

fun Seqs :: "re list \<Rightarrow> re" where
  "Seqs [] = Eps"
| "Seqs [r] = r"
| "Seqs (r # rs) = Seq r (Seqs rs)"

text \<open>The first match that starts exactly at the current position: the number of
  characters it consumes and its captures.\<close>

definition match_here :: "re \<Rightarrow> string \<Rightarrow> string \<Rightarrow> (nat \<times> (nat \<rightharpoonup> string)) option" where
  "match_here r bef s =
     (case rm r \<lparr>prev = bef, rest = s, caps = Map.empty\<rparr> of
        [] \<Rightarrow> None
      | s' # _ \<Rightarrow> Some (length s - length (rest s'), caps s'))"

function replace_go :: "re \<Rightarrow> (string \<Rightarrow> (nat \<rightharpoonup> string) \<Rightarrow> string) \<Rightarrow> string \<Rightarrow> string \<Rightarrow> string" where
  "replace_go r f bef s =
     (case match_here r bef s of
        None \<Rightarrow> (case s of [] \<Rightarrow> [] | c # cs \<Rightarrow> c # replace_go r f (c # bef) cs)
      | Some (n, cp) \<Rightarrow>
          f (take n s) cp @
          (case s of
             [] \<Rightarrow> []
           | c # cs \<Rightarrow> if n = 0 then c # replace_go r f (c # bef) cs
                       else replace_go r f (rev (take n s) @ bef) (drop n s)))"
  by pat_completeness auto
termination
  by (relation "measure (\<lambda>(r, f, bef, s). length s)") auto

declare replace_go.simps [simp del]

definition replace_all :: "re \<Rightarrow> (string \<Rightarrow> (nat \<rightharpoonup> string) \<Rightarrow> string) \<Rightarrow> string \<Rightarrow> string" where
  "replace_all r f s = replace_go r f [] s"

text \<open>\<open>String.prototype.replace\<close> with a global pattern: matches are looked for from
  left to right, the search resumes after each match, and an empty match copies one
  character prev the search goes on. The callback may throw.\<close>

datatype js_error = TypeError string | Error string

fun message :: "js_error \<Rightarrow> string" where
  "message (TypeError m) = m"
| "message (Error m) = m"

function replace_go_err ::
  "re \<Rightarrow> (string \<Rightarrow> (nat \<rightharpoonup> string) \<Rightarrow> js_error + string) \<Rightarrow> string \<Rightarrow> string \<Rightarrow> js_error + string" where
  "replace_go_err r f bef s =
     (case match_here r bef s of
        None \<Rightarrow>
          (case s of
             [] \<Rightarrow> Inr []
           | c # cs \<Rightarrow> (case replace_go_err r f (c # bef) cs of
                         Inl e \<Rightarrow> Inl e | Inr out \<Rightarrow> Inr (c # out)))
      | Some (n, cp) \<Rightarrow>
          (case f (take n s) cp of
             Inl e \<Rightarrow> Inl e
           | Inr rep \<Rightarrow>
               (case s of
                  [] \<Rightarrow> Inr rep
                | c # cs \<Rightarrow>
                    if n = 0
                    then (case replace_go_err r f (c # bef) cs of
                            Inl e \<Rightarrow> Inl e | Inr out \<Rightarrow> Inr (rep @ c # out))
                    else (case replace_go_err r f (rev (take n s) @ bef) (drop n s) of
                            Inl e \<Rightarrow> Inl e | Inr out \<Rightarrow> Inr (rep @ out)))))"
  by pat_completeness auto
termination
  by (relation "measure (\<lambda>(r, f, bef, s). length s)") auto

declare replace_go_err.simps [simp del]

definition replace_all_err ::
  "re \<Rightarrow> (string \<Rightarrow> (nat \<rightharpoonup> string) \<Rightarrow> js_error + string) \<Rightarrow> string \<Rightarrow> js_error + string" where
  "replace_all_err r f s = replace_go_err r f [] s"

text \<open>\<open>String.prototype.match\<close> with a pattern that is not global, and
  \<open>RegExp.prototype.test\<close>: the first position, from the left, where the pattern
  matches. The result is the text prev the match, the matched text and the captures.\<close>

fun search_go :: "re \<Rightarrow> string \<Rightarrow> string \<Rightarrow> (string \<times> string \<times> (nat \<rightharpoonup> string)) option" where
  "search_go r bef [] =
     (case match_here r bef [] of None \<Rightarrow> None | Some (n, cp) \<Rightarrow> Some (rev bef, [], cp))"
| "search_go r bef (c # cs) =
     (case match_here r bef (c # cs) of
        None \<Rightarrow> search_go r (c # bef) cs
      | Some (n, cp) \<Rightarrow> Some (rev bef, take n (c # cs), cp))"

definition re_match :: "re \<Rightarrow> string \<Rightarrow> (string \<times> (nat \<rightharpoonup> string)) option" where
  "re_match r s = (case search_go r [] s of None \<Rightarrow> None | Some (_, m, cp) \<Rightarrow> Some (m, cp))"


text \<open>A replacement string: literal text and group references \<open>$n\<close>; a group that
  did not take part in the match is replaced by the empty string.\<close>

datatype tpart = T string | G nat

fun expand :: "tpart list \<Rightarrow> (nat \<rightharpoonup> string) \<Rightarrow> string" where
  "expand [] cp = []"
| "expand (T t # ps) cp = t @ expand ps cp"
| "expand (G k # ps) cp = (case cp k of None \<Rightarrow> [] | Some t \<Rightarrow> t) @ expand ps cp"

definition replace_tpl :: "re \<Rightarrow> tpart list \<Rightarrow> string \<Rightarrow> string" where
  "replace_tpl r tp s = replace_all r (\<lambda>m cp. expand tp cp) s"

text \<open>A capture read in a callback or a template literal: \<open>undefined\<close> prints as
  the word itself.\<close>

definition cap :: "(nat \<rightharpoonup> string) \<Rightarrow> nat \<Rightarrow> string" where
  "cap cp k = (case cp k of None \<Rightarrow> ''undefined'' | Some t \<Rightarrow> t)"

definition digit :: re where "digit = Cls [CDigit]"
definition wordc :: re where "wordc = Cls [CWord]"
definition space :: re where "space = Cls [CSpace]"
definition ws :: re where "ws = Star space"
definition ws1 :: re where "ws1 = Plus space"
definition word1 :: re where "word1 = Plus wordc"
definition digits1 :: re where "digits1 = Plus digit"
definition any_of :: "string \<Rightarrow> re" where "any_of cs = Cls (map CChar cs)"
definition none_of :: "string \<Rightarrow> re" where "none_of cs = NCls (map CChar cs)"
definition anything :: re where "anything = Cls [CSpace, CNotSpace]"

subsection \<open>Numbers printed and read as decimal digits\<close>

definition digit_char :: "nat \<Rightarrow> char" where
  "digit_char d = ''0123456789'' ! d"

function show_nat :: "nat \<Rightarrow> string" where
  "show_nat n = (if n < 10 then [digit_char n] else show_nat (n div 10) @ [digit_char (n mod 10)])"
  by pat_completeness auto
termination
  by (relation "measure id") auto

declare show_nat.simps [simp del]

definition show_int :: "int \<Rightarrow> string" where
  "show_int i = (if i < 0 then CHR ''-'' # show_nat (nat (- i)) else show_nat (nat i))"

definition read_nat :: "string \<Rightarrow> nat" where
  "read_nat s = foldl (\<lambda>a c. 10 * a + (of_char c - 48)) 0 s"

section \<open>The optimisation pipeline (JITEngine)\<close>

subsection \<open>Property lookup on an object literal\<close>

text \<open>
  \<open>obj[key]\<close> on an object literal finds the object's own properties first and then
  those inherited from \<open>Object.prototype\<close>; every inherited value is a function or
  an object, hence truthy. A key that is found nowhere yields \<open>undefined\<close>.
\<close>

datatype 'a lookup = Own 'a | Inherited | Missing

definition object_prototype_keys :: "string list" where
  "object_prototype_keys =
     [''constructor'', ''__defineGetter__'', ''__defineSetter__'', ''hasOwnProperty'',
      ''__lookupGetter__'', ''__lookupSetter__'', ''isPrototypeOf'', ''propertyIsEnumerable'',
      ''toString'', ''valueOf'', ''__proto__'', ''toLocaleString'']"

definition js_lookup :: "(string \<times> 'a) list \<Rightarrow> string \<Rightarrow> 'a lookup" where
  "js_lookup obj k =
     (case map_of obj k of
        Some v \<Rightarrow> Own v
      | None \<Rightarrow> if k \<in> set object_prototype_keys then Inherited else Missing)"

subsection \<open>Optimisation levels and passes\<close>

record opt_level =
  level_enableJIT :: bool
  optimizations :: "string list"

definition optimizationLevels :: "(string \<times> opt_level) list" where
  "optimizationLevels =
     [(''O0'', \<lparr>level_enableJIT = False, optimizations = []\<rparr>),
      (''O1'', \<lparr>level_enableJIT = True, optimizations = [''inline'', ''const-fold'']\<rparr>),
      (''O2'', \<lparr>level_enableJIT = True,
               optimizations = [''inline'', ''const-fold'', ''dead-code'', ''loop-opt'']\<rparr>),
      (''O3'', \<lparr>level_enableJIT = True,
               optimizations = [''inline'', ''const-fold'', ''dead-code'', ''loop-opt'', ''vectorize'']\<rparr>)]"

text \<open>\<open>/function\s+(\w+)\s*\([^)]*\)\s*{\s*return\s+([^;]+);\s*}/g\<close>\<close>

definition inline_re :: re where
  "inline_re = Seqs [Lit ''function'', ws1, Grp 1 word1, ws, Chr CHR ''('', Star (none_of '')''),
     Chr CHR '')'', ws, Chr CHR ''{'', ws, Lit ''return'', ws1, Grp 2 (Plus (none_of '';'')),
     Chr CHR '';'', ws, Chr CHR ''}'']"

definition inlineOptimization :: "string \<Rightarrow> string" where
  "inlineOptimization code =
     replace_all inline_re
       (\<lambda>m cp. if length (cap cp 2) < 50
                then ''const '' @ cap cp 1 @ '' = () => '' @ cap cp 2 @ '';''
                else m)
       code"

text \<open>\<open>/\b(\d+)\s*\+\s*(\d+)\b/g\<close>, and the same with \<open>\-\<close> and \<open>\*\<close>. The
  callback computes \<open>String(Number(a) + Number(b))\<close>; the model computes with exact
  integers, which is what the code computes as long as the literals and the result are
  below \<open>2^53\<close>.\<close>

definition arith_re :: "char \<Rightarrow> re" where
  "arith_re op = Seqs [WordB, Grp 1 digits1, ws, Chr op, ws, Grp 2 digits1, WordB]"

definition fold_with :: "(int \<Rightarrow> int \<Rightarrow> int) \<Rightarrow> string \<Rightarrow> (nat \<rightharpoonup> string) \<Rightarrow> string" where
  "fold_with f m cp = show_int (f (int (read_nat (cap cp 1))) (int (read_nat (cap cp 2))))"

definition constantFolding :: "string \<Rightarrow> string" where
  "constantFolding code =
     replace_all (arith_re CHR ''*'') (fold_with (*))
       (replace_all (arith_re CHR ''-'') (fold_with (-))
          (replace_all (arith_re CHR ''+'') (fold_with (+)) code))"

text \<open>\<open>/return\s+[^;]+;\s*[\s\S]*?(?=}|$)/g\<close>; the callback takes
  \<open>match.match(/return\s+[^;]+;/)[0]\<close>, which throws when the inner match is
  \<open>null\<close>.\<close>

definition return_stmt_re :: re where
  "return_stmt_re = Seqs [Lit ''return'', ws1, Plus (none_of '';''), Chr CHR '';'']"

definition dead_code_re :: re where
  "dead_code_re = Seqs [Lit ''return'', ws1, Plus (none_of '';''), Chr CHR '';'', ws,
     StarLazy anything, Look (Alt (Chr CHR ''}'') Eol)]"

definition deadCodeElimination :: "string \<Rightarrow> js_error + string" where
  "deadCodeElimination code =
     replace_all_err dead_code_re
       (\<lambda>m cp. case re_match return_stmt_re m of
                  None \<Rightarrow> Inl (TypeError ''Cannot read properties of null (reading '0')'')
                | Some (returnStatement, _) \<Rightarrow> Inr returnStatement)
       code"

text \<open>\<open>/for\s*\([^)]+\)\s*{([^}]*?)}/g\<close>; the callback returns the match.\<close>

definition loop_re :: re where
  "loop_re = Seqs [Lit ''for'', ws, Chr CHR ''('', Plus (none_of '')''), Chr CHR '')'', ws,
     Chr CHR ''{'', Grp 1 (StarLazy (none_of ''}'')), Chr CHR ''}'']"

definition loopOptimization :: "string \<Rightarrow> string" where
  "loopOptimization code = replace_all loop_re (\<lambda>m cp. m) code"

text \<open>\<open>/for\s*\(\s*let\s+(\w+)\s*=\s*0\s*;\s*\1\s*<\s*(\w+)\.length\s*;\s*\1\+\+\s*\)\s*{\s*(\w+)\[\1\]\s*=\s*([^;]+);\s*}/g\<close>\<close>

definition vectorize_re :: re where
  "vectorize_re = Seqs [Lit ''for'', ws, Chr CHR ''('', ws, Lit ''let'', ws1, Grp 1 word1, ws,
     Chr CHR ''='', ws, Chr CHR ''0'', ws, Chr CHR '';'', ws, Bref 1, ws, Chr CHR ''<'', ws,
     Grp 2 word1, Lit ''.length'', ws, Chr CHR '';'', ws, Bref 1, Lit ''++'', ws, Chr CHR '')'',
     ws, Chr CHR ''{'', ws, Grp 3 word1, Chr CHR ''['', Bref 1, Chr CHR '']'', ws, Chr CHR ''='',
     ws, Grp 4 (Plus (none_of '';'')), Chr CHR '';'', ws, Chr CHR ''}'']"

definition vectorization :: "string \<Rightarrow> string" where
  "vectorization code =
     replace_all vectorize_re
       (\<lambda>m cp. cap cp 3 @ '' = '' @ cap cp 2 @ ''.map((item, '' @ cap cp 1 @ '') => '' @ cap cp 4 @ '');'')
       code"

subsection \<open>optimize\<close>

definition apply_optimization :: "string \<Rightarrow> string \<Rightarrow> js_error + string" where
  "apply_optimization optimization optimizedCode =
     (if optimization = ''inline'' then Inr (inlineOptimization optimizedCode)
      else if optimization = ''const-fold'' then Inr (constantFolding optimizedCode)
      else if optimization = ''dead-code'' then deadCodeElimination optimizedCode
      else if optimization = ''loop-opt'' then Inr (loopOptimization optimizedCode)
      else if optimization = ''vectorize'' then Inr (vectorization optimizedCode)
      else Inr optimizedCode)"

fun optimize_loop :: "string list \<Rightarrow> string \<Rightarrow> js_error + string" where
  "optimize_loop [] optimizedCode = Inr optimizedCode"
| "optimize_loop (optimization # later) optimizedCode =
     (case apply_optimization optimization optimizedCode of
        Inl e \<Rightarrow> Inl e
      | Inr c \<Rightarrow> optimize_loop later c)"

text \<open>\<open>opts\<close> is \<open>undefined\<close> for a level that is no key of the table, and reading
  \<open>opts.optimizations\<close> throws; for a key inherited from \<open>Object.prototype\<close> it is
  an object without \<open>optimizations\<close>, and the \<open>for ... of\<close> throws. The messages are
  the engine's wording.\<close>

definition optimize :: "string \<Rightarrow> string \<Rightarrow> js_error + string" where
  "optimize code optimizationLevel =
     (case js_lookup optimizationLevels optimizationLevel of
        Own opts \<Rightarrow> optimize_loop (optimizations opts) code
      | Inherited \<Rightarrow> Inl (TypeError ''opts.optimizations is not iterable'')
      | Missing \<Rightarrow> Inl (TypeError ''Cannot read properties of undefined (reading 'optimizations')''))"

definition optimize_twice :: "string \<Rightarrow> string \<Rightarrow> js_error + string" where
  "optimize_twice code optimizationLevel =
     (case optimize code optimizationLevel of
        Inl e \<Rightarrow> Inl e
      | Inr c \<Rightarrow> optimize c optimizationLevel)"

subsection \<open>Values, property keys and JSON text\<close>

text \<open>
  The values an options object holds: plain data (what a JSON request body can carry),
  with whole numbers only. An object is the list of its own properties in insertion
  order; it has no \<open>toString\<close> or \<open>valueOf\<close> of its own.
\<close>

datatype jsval =
    JUndefined
  | JNull
  | JBool bool
  | JNum int
  | JStr string
  | JArr "jsval list"
  | JObj "(string \<times> jsval) list"

definition opt_get :: "(string \<times> jsval) list \<Rightarrow> string \<Rightarrow> jsval" where
  "opt_get options k = (case map_of options k of None \<Rightarrow> JUndefined | Some v \<Rightarrow> v)"

text \<open>A destructuring default applies when the property is absent or \<open>undefined\<close>.\<close>

definition with_default :: "jsval \<Rightarrow> jsval \<Rightarrow> jsval" where
  "with_default v d = (if v = JUndefined then d else v)"

fun truthy :: "jsval \<Rightarrow> bool" where
  "truthy JUndefined = False"
| "truthy JNull = False"
| "truthy (JBool b) = b"
| "truthy (JNum n) = (n \<noteq> 0)"
| "truthy (JStr s) = (s \<noteq> [])"
| "truthy (JArr _) = True"
| "truthy (JObj _) = True"

fun join :: "string \<Rightarrow> string list \<Rightarrow> string" where
  "join sep [] = []"
| "join sep [x] = x"
| "join sep (x # xs) = x @ sep @ join sep xs"

text \<open>The string a value becomes when it is used as a property key or in a template
  literal.\<close>

fun to_string :: "jsval \<Rightarrow> string" where
  "to_string JUndefined = ''undefined''"
| "to_string JNull = ''null''"
| "to_string (JBool b) = (if b then ''true'' else ''false'')"
| "to_string (JNum n) = show_int n"
| "to_string (JStr s) = s"
| "to_string (JArr vs) =
     join '','' (map (\<lambda>v. if v = JUndefined \<or> v = JNull then [] else to_string v) vs)"
| "to_string (JObj _) = ''[object Object]''"

definition hex_digit :: "nat \<Rightarrow> char" where
  "hex_digit n = ''0123456789abcdef'' ! n"

definition json_escape :: "char \<Rightarrow> string" where
  "json_escape c =
     (let n = (of_char c :: nat) in
      if c = CHR 0x22 then [CHR 0x5C, CHR 0x22]
      else if c = CHR 0x5C then [CHR 0x5C, CHR 0x5C]
      else if n = 8 then [CHR 0x5C, CHR ''b'']
      else if n = 12 then [CHR 0x5C, CHR ''f'']
      else if n = 10 then [CHR 0x5C, CHR ''n'']
      else if n = 13 then [CHR 0x5C, CHR ''r'']
      else if n = 9 then [CHR 0x5C, CHR ''t'']
      else if n < 32 then [CHR 0x5C, CHR ''u'', CHR ''0'', CHR ''0'', hex_digit (n div 16), hex_digit (n mod 16)]
      else [c])"

definition json_quote :: "string \<Rightarrow> string" where
  "json_quote s = [CHR 0x22] @ concat (map json_escape s) @ [CHR 0x22]"

text \<open>\<open>JSON.stringify\<close>: \<open>None\<close> is \<open>undefined\<close>, for which a property is left
  out and an array element is written \<open>null\<close>.\<close>

fun stringify :: "jsval \<Rightarrow> string option" where
  "stringify JUndefined = None"
| "stringify JNull = Some ''null''"
| "stringify (JBool b) = Some (if b then ''true'' else ''false'')"
| "stringify (JNum n) = Some (show_int n)"
| "stringify (JStr s) = Some (json_quote s)"
| "stringify (JArr vs) =
     Some (''['' @ join '','' (map (\<lambda>v. case stringify v of None \<Rightarrow> ''null'' | Some t \<Rightarrow> t) vs) @ '']'')"
| "stringify (JObj ps) =
     Some (''{'' @ join '',''
             (concat (map (\<lambda>(k, v). case stringify v of
                                     None \<Rightarrow> []
                                   | Some t \<Rightarrow> [json_quote k @ '':'' @ t]) ps)) @ ''}'')"

definition JSON_stringify :: "jsval \<Rightarrow> string" where
  "JSON_stringify v = (case stringify v of None \<Rightarrow> ''undefined'' | Some t \<Rightarrow> t)"

subsection \<open>The MD5 digest of the cache keys\<close>

text \<open>\<open>crypto.createHash('md5').update(text).digest('hex')\<close>: the digest of the UTF-8
  bytes of the text (RFC 1321), as 32 lower-case hexadecimal digits.\<close>

definition md5_K :: "32 word list" where
  "md5_K =
     [0xd76aa478, 0xe8c7b756, 0x242070db, 0xc1bdceee, 0xf57c0faf, 0x4787c62a,
      0xa8304613, 0xfd469501, 0x698098d8, 0x8b44f7af, 0xffff5bb1, 0x895cd7be,
      0x6b901122, 0xfd987193, 0xa679438e, 0x49b40821, 0xf61e2562, 0xc040b340,
      0x265e5a51, 0xe9b6c7aa, 0xd62f105d, 0x02441453, 0xd8a1e681, 0xe7d3fbc8,
      0x21e1cde6, 0xc33707d6, 0xf4d50d87, 0x455a14ed, 0xa9e3e905, 0xfcefa3f8,
      0x676f02d9, 0x8d2a4c8a, 0xfffa3942, 0x8771f681, 0x6d9d6122, 0xfde5380c,
      0xa4beea44, 0x4bdecfa9, 0xf6bb4b60, 0xbebfbc70, 0x289b7ec6, 0xeaa127fa,
      0xd4ef3085, 0x04881d05, 0xd9d4d039, 0xe6db99e5, 0x1fa27cf8, 0xc4ac5665,
      0xf4292244, 0x432aff97, 0xab9423a7, 0xfc93a039, 0x655b59c3, 0x8f0ccc92,
      0xffeff47d, 0x85845dd1, 0x6fa87e4f, 0xfe2ce6e0, 0xa3014314, 0x4e0811a1,
      0xf7537e82, 0xbd3af235, 0x2ad7d2bb, 0xeb86d391]"

definition md5_S :: "nat list" where
  "md5_S =
     [7, 12, 17, 22, 7, 12, 17, 22, 7, 12, 17, 22, 7, 12, 17, 22,
      5, 9, 14, 20, 5, 9, 14, 20, 5, 9, 14, 20, 5, 9, 14, 20,
      4, 11, 16, 23, 4, 11, 16, 23, 4, 11, 16, 23, 4, 11, 16, 23,
      6, 10, 15, 21, 6, 10, 15, 21, 6, 10, 15, 21, 6, 10, 15, 21]"

definition utf8 :: "string \<Rightarrow> 8 word list" where
  "utf8 s = concat (map (\<lambda>c. let n = (of_char c :: nat) in
                              if n < 128 then [of_nat n]
                              else [of_nat (192 + n div 64), of_nat (128 + n mod 64)]) s)"

fun le_bytes :: "nat \<Rightarrow> nat \<Rightarrow> 8 word list" where
  "le_bytes 0 n = []"
| "le_bytes (Suc k) n = of_nat (n mod 256) # le_bytes k (n div 256)"

definition md5_pad :: "8 word list \<Rightarrow> 8 word list" where
  "md5_pad m = m @ [0x80] @ replicate ((119 - length m mod 64) mod 64) 0 @ le_bytes 8 (8 * length m)"

definition le_word :: "8 word list \<Rightarrow> 32 word" where
  "le_word bs = foldr (\<lambda>b w. push_bit 8 w OR ucast b) bs 0"

fun chunks :: "nat \<Rightarrow> nat \<Rightarrow> 'a list \<Rightarrow> 'a list list" where
  "chunks 0 k xs = []"
| "chunks (Suc n) k xs = take k xs # chunks n k (drop k xs)"

definition md5_step :: "32 word list \<Rightarrow> 32 word \<times> 32 word \<times> 32 word \<times> 32 word \<Rightarrow> nat \<Rightarrow> 32 word \<times> 32 word \<times> 32 word \<times> 32 word" where
  "md5_step M st i =
     (case st of (a, b, c, d) \<Rightarrow>
        let (f, g) =
              (if i < 16 then ((b AND c) OR (NOT b AND d), i)
               else if i < 32 then ((d AND b) OR (NOT d AND c), (5 * i + 1) mod 16)
               else if i < 48 then (b XOR c XOR d, (3 * i + 5) mod 16)
               else (c XOR (b OR NOT d), (7 * i) mod 16));
            f' = f + a + md5_K ! i + M ! g
        in (d, b + word_rotl (md5_S ! i) f', b, c))"

definition md5_block :: "32 word \<times> 32 word \<times> 32 word \<times> 32 word \<Rightarrow> 8 word list \<Rightarrow> 32 word \<times> 32 word \<times> 32 word \<times> 32 word" where
  "md5_block h blk =
     (let M = map le_word (chunks 16 4 blk) in
      case h of (a0, b0, c0, d0) \<Rightarrow>
      case foldl (md5_step M) h [0..<64] of (a, b, c, d) \<Rightarrow>
        (a0 + a, b0 + b, c0 + c, d0 + d))"

definition hex_byte :: "8 word \<Rightarrow> string" where
  "hex_byte b = [hex_digit (unat b div 16), hex_digit (unat b mod 16)]"

definition word_bytes :: "32 word \<Rightarrow> 8 word list" where
  "word_bytes w = map (\<lambda>i. ucast (drop_bit (8 * i) w)) [0..<4]"

definition md5_hex :: "string \<Rightarrow> string" where
  "md5_hex s =
     (let p = md5_pad (utf8 s) in
      case foldl md5_block (0x67452301, 0xefcdab89, 0x98badcfe, 0x10325476)
             (chunks (length p div 64) 64 p) of
        (a, b, c, d) \<Rightarrow> concat (map hex_byte (concat (map word_bytes [a, b, c, d]))))"

subsection \<open>compile\<close>














subsection \<open>execute\<close>








section \<open>The platform adapter (IOSTranslator)\<close>

subsection \<open>Text helpers\<close>

text \<open>\<open>String.prototype.includes\<close>.\<close>

fun str_includes :: "string \<Rightarrow> string \<Rightarrow> bool" where
  "str_includes [] t = (t = [])"
| "str_includes (c # cs) t = (prefix t (c # cs) \<or> str_includes cs t)"

subsection \<open>Rules and state\<close>

definition restrictedAPIs :: "string list" where
  "restrictedAPIs = [''eval'', ''Function'', ''setTimeout'', ''setInterval'',
     ''XMLHttpRequest'', ''fetch'', ''WebSocket'']"

definition maxCodeSize :: nat where
  "maxCodeSize = 1024 * 1024"

record verdict =
  compatible :: bool
  issues :: "string list"
  confidence :: real






subsection \<open>removeJITOptimizations\<close>





subsection \<open>applyIOSCompatibility\<close>















subsection \<open>addPolyfills and the adaptations for each target\<close>








subsection \<open>optimizeForIOS and wrapForIOSExecution\<close>

text \<open>\<open>/\/\*[\s\S]*?\*\//g\<close>, \<open>/\/\/.*$/gm\<close> and \<open>/\s+/g\<close>\<close>

definition block_comment_re :: re where
  "block_comment_re = Seqs [Lit ''/*'', StarLazy anything, Lit ''*/'']"

definition line_comment_re :: re where
  "line_comment_re = Seqs [Lit ''//'', Star AnyChar, EolM]"

definition strip_for_size :: "string \<Rightarrow> string" where
  "strip_for_size code =
     replace_tpl ws1 [T '' '']
       (replace_tpl line_comment_re []
          (replace_tpl block_comment_re [] code))"

definition optimizeForIOS :: "string \<Rightarrow> jsval \<Rightarrow> string" where
  "optimizeForIOS code optimizeForSize =
     (let optimizedCode = (if truthy optimizeForSize then strip_for_size code else code)
      in if length optimizedCode > maxCodeSize
         then take (maxCodeSize - 100) optimizedCode @ ''\<newline>// TRUNCATED''
         else optimizedCode)"

definition wrapForIOSExecution :: "string \<Rightarrow> string \<Rightarrow> string" where
  "wrapForIOSExecution code target =
     ''\<newline>'' @
     ''// JITPhone iOS Execution Wrapper\<newline>'' @
     ''(function() {\<newline>'' @
     ''  'use strict';\<newline>'' @
     ''  \<newline>'' @
     ''  var startTime = Date.now();\<newline>'' @
     ''  var result = null;\<newline>'' @
     ''  var error = null;\<newline>'' @
     ''  \<newline>'' @
     ''  try {\<newline>'' @
     ''    // Set up iOS-safe environment\<newline>'' @
     ''    var safeGlobal = {\<newline>'' @
     ''      Math: Math,\<newline>'' @
     ''      Date: Date,\<newline>'' @
     ''      JSON: JSON,\<newline>'' @
     ''      Array: Array,\<newline>'' @
     ''      Object: Object,\<newline>'' @
     ''      String: String,\<newline>'' @
     ''      Number: Number,\<newline>'' @
     ''      Boolean: Boolean,\<newline>'' @
     ''      console: console\<newline>'' @
     ''    };\<newline>'' @
     ''    \<newline>'' @
     ''    // Execute in controlled context\<newline>'' @
     ''    (function() {\<newline>'' @
     ''      '' @ code @ ''\<newline>'' @
     ''    }).call(safeGlobal);\<newline>'' @
     ''    \<newline>'' @
     ''  } catch (e) {\<newline>'' @
     ''    error = {\<newline>'' @
     ''      message: e.message,\<newline>'' @
     ''      name: e.name,\<newline>'' @
     ''      stack: e.stack\<newline>'' @
     ''    };\<newline>'' @
     ''  }\<newline>'' @
     ''  \<newline>'' @
     ''  var executionTime = Date.now() - startTime;\<newline>'' @
     ''  \<newline>'' @
     ''  // Return standardized result for iOS\<newline>'' @
     ''  return {\<newline>'' @
     ''    success: error === null,\<newline>'' @
     ''    result: result,\<newline>'' @
     ''    error: error,\<newline>'' @
     ''    executionTime: executionTime,\<newline>'' @
     ''    target: '' @ [CHR 0x27] @ target @ [CHR 0x27] @ '',\<newline>'' @
     ''    jitphone: true\<newline>'' @
     ''  };\<newline>'' @
     ''})();\<newline>'' @
     ''    ''"

subsection \<open>validateIOSCompatibility\<close>

text \<open>The test of the loop: \<open>code.includes(api) && !code.includes(`__ios_safe_${api}`)\<close>.\<close>

definition restricted_hit :: "string \<Rightarrow> string \<Rightarrow> bool" where
  "restricted_hit code api = (str_includes code api \<and> \<not> str_includes code (''__ios_safe_'' @ api))"

fun restricted_issues :: "string list \<Rightarrow> string \<Rightarrow> string list" where
  "restricted_issues [] code = []"
| "restricted_issues (api # apis) code =
     (if restricted_hit code api
      then (''Restricted API detected: '' @ api) # restricted_issues apis code
      else restricted_issues apis code)"

definition validateIOSCompatibility :: "string \<Rightarrow> verdict" where
  "validateIOSCompatibility code =
     (let issues = restricted_issues restrictedAPIs code @
                   (if length code > maxCodeSize then [''Code size exceeds iOS limits''] else [])
      in \<lparr>compatible = (length issues = 0), issues = issues,
          confidence = max 0 (1 - real (length issues) * 0.2)\<rparr>)"

subsection \<open>translate\<close>









section \<open>The format bridge (JITConverter)\<close>

subsection \<open>More text helpers\<close>

text \<open>\<open>String.prototype.trim\<close>, \<open>split\<close> on one character, and the list of all
  matches of a global pattern (\<open>String.prototype.match\<close> with the \<open>g\<close> flag).\<close>

definition trim :: "string \<Rightarrow> string" where
  "trim s = rev (dropWhile is_space (rev (dropWhile is_space s)))"

fun split_on :: "char \<Rightarrow> string \<Rightarrow> string list" where
  "split_on sep [] = [[]]"
| "split_on sep (c # cs) =
     (if c = sep then [] # split_on sep cs
      else (case split_on sep cs of
              [] \<Rightarrow> [[c]]
            | x # xs \<Rightarrow> (c # x) # xs))"

function match_all_go :: "re \<Rightarrow> string \<Rightarrow> string \<Rightarrow> string list" where
  "match_all_go r bef s =
     (case match_here r bef s of
        None \<Rightarrow> (case s of [] \<Rightarrow> [] | c # cs \<Rightarrow> match_all_go r (c # bef) cs)
      | Some (n, cp) \<Rightarrow>
          take n s #
          (case s of
             [] \<Rightarrow> []
           | c # cs \<Rightarrow> if n = 0 then match_all_go r (c # bef) cs
                       else match_all_go r (rev (take n s) @ bef) (drop n s)))"
  by pat_completeness auto
termination
  by (relation "measure (\<lambda>(r, bef, s). length s)") auto

declare match_all_go.simps [simp del]

definition match_all :: "re \<Rightarrow> string \<Rightarrow> string list" where
  "match_all r s = match_all_go r [] s"

subsection \<open>The instruction IR\<close>

record instruction =
  op :: string
  args :: "string list"

record ir_function =
  f_name :: string
  f_instructions :: "instruction list"
  f_optimizations :: "string list"

text \<open>Of the intermediate object only \<open>type\<close> and \<open>functions\<close> are read when the
  target code is emitted.\<close>

record intermediate =
  i_type :: string
  i_functions :: "ir_function list"

record conversion =
  c_success :: bool
  c_code :: string
  c_optimizations :: "string list"
  c_sourceFormat :: string
  c_targetFormat :: string
  c_conversionTime :: nat
  c_preservedOptimizations :: "string list"

record converter_state =
  conversionCache :: "string \<rightharpoonup> conversion"
  conversions :: nat
  conv_cacheHits :: nat

definition new_converter :: converter_state where
  "new_converter = \<lparr>conversionCache = Map.empty, conversions = 0, conv_cacheHits = 0\<rparr>"

subsection \<open>Lowering iOS LLVM IR\<close>

definition parseIOSOptimizations :: "string \<Rightarrow> string list" where
  "parseIOSOptimizations llvmLine =
     (if str_includes llvmLine ''inlinehint'' then [''inline''] else []) @
     (if str_includes llvmLine ''optsize'' then [''size''] else []) @
     (if str_includes llvmLine ''minsize'' then [''minsize''] else [])"

text \<open>\<open>/(%\w+)\s*=\s*load.*?(%\w+)/\<close>, \<open>/store.*?(%\w+).*?(%\w+)/\<close>,
  \<open>/(%\w+)\s*=\s*add.*?(%\w+),\s*(%\w+)/\<close>, \<open>/call.*?@(\w+)/\<close> and
  \<open>/ret.*?(%\w+)?/\<close>, tried in this order.\<close>

definition reg :: re where
  "reg = Seq (Chr CHR ''%'') word1"

definition ios_patterns :: "(string \<times> re \<times> nat) list" where
  "ios_patterns =
     [(''load'', Seqs [Grp 1 reg, ws, Chr CHR ''='', ws, Lit ''load'', StarLazy AnyChar, Grp 2 reg], 2),
      (''store'', Seqs [Lit ''store'', StarLazy AnyChar, Grp 1 reg, StarLazy AnyChar, Grp 2 reg], 2),
      (''add'', Seqs [Grp 1 reg, ws, Chr CHR ''='', ws, Lit ''add'', StarLazy AnyChar, Grp 2 reg,
                      Chr CHR '','', ws, Grp 3 reg], 3),
      (''call'', Seqs [Lit ''call'', StarLazy AnyChar, Chr CHR ''@'', Grp 1 word1], 1),
      (''ret'', Seqs [Lit ''ret'', StarLazy AnyChar, Opt (Grp 1 reg)], 1)]"

text \<open>\<open>match.slice(1).filter(Boolean)\<close>: the captures that took part in the match and
  are not empty.\<close>

definition captures :: "(nat \<rightharpoonup> string) \<Rightarrow> nat \<Rightarrow> string list" where
  "captures cp n = concat (map (\<lambda>k. case cp k of None \<Rightarrow> [] | Some t \<Rightarrow> if t = [] then [] else [t])
                             [1..<Suc n])"

fun try_patterns :: "(string \<times> re \<times> nat) list \<Rightarrow> string \<Rightarrow> instruction option" where
  "try_patterns [] line = None"
| "try_patterns ((name, pattern, n) # ps) line =
     (case re_match pattern line of
        Some (m, cp) \<Rightarrow> Some \<lparr>op = name, args = captures cp n\<rparr>
      | None \<Rightarrow> try_patterns ps line)"

definition parseIOSInstruction :: "string \<Rightarrow> instruction option" where
  "parseIOSInstruction line = try_patterns ios_patterns line"

text \<open>\<open>/define\s+.*\s+@(\w+)\s*\(/\<close>\<close>

definition define_re :: re where
  "define_re = Seqs [Lit ''define'', ws1, Star AnyChar, ws1, Chr CHR ''@'', Grp 1 word1, ws,
     Chr CHR ''('']"

text \<open>The loop over the lines. \<open>currentFunction\<close> is the function pushed last, so an
  instruction is added to the last element of the list.\<close>

definition push_instruction :: "instruction \<Rightarrow> ir_function list \<Rightarrow> ir_function list" where
  "push_instruction i fs =
     (case rev fs of
        [] \<Rightarrow> []
      | f # earlier \<Rightarrow> rev earlier @ [f\<lparr>f_instructions := f_instructions f @ [i]\<rparr>])"

fun llvm_lines :: "string list \<Rightarrow> ir_function list \<Rightarrow> ir_function list" where
  "llvm_lines [] functions = functions"
| "llvm_lines (line # lines) functions =
     (let trimmedLine = trim line in
      if prefix ''define'' trimmedLine then
        (case re_match define_re trimmedLine of
           Some (m, cp) \<Rightarrow>
             llvm_lines lines
               (functions @ [\<lparr>f_name = cap cp 1, f_instructions = [],
                               f_optimizations = parseIOSOptimizations trimmedLine\<rparr>])
         | None \<Rightarrow> llvm_lines lines functions)
      else if functions \<noteq> [] \<and> trimmedLine \<noteq> [] then
        (case parseIOSInstruction trimmedLine of
           Some i \<Rightarrow> llvm_lines lines (push_instruction i functions)
         | None \<Rightarrow> llvm_lines lines functions)
      else llvm_lines lines functions)"

definition convertIOSLLVM :: "jsval \<Rightarrow> js_error + intermediate" where
  "convertIOSLLVM llvmIR =
     (case llvmIR of
        JStr text \<Rightarrow> Inr \<lparr>i_type = ''ios-llvm'',
                            i_functions = llvm_lines (split_on CHR 0x0A text) []\<rparr>
      | _ \<Rightarrow> Inl (TypeError ''llvmIR.split is not a function''))"

subsection \<open>The other lowerings\<close>

text \<open>\<open>parseARTMethods\<close> returns one fixed method whatever the input is, and
  \<open>convertARTInstruction\<close> maps its two instructions.\<close>

definition convertARTInstruction :: "instruction \<Rightarrow> instruction" where
  "convertARTInstruction i =
     (if op i = ''invoke-virtual'' then \<lparr>op = ''call'', args = args i\<rparr>
      else if op i = ''return-void'' then \<lparr>op = ''return'', args = []\<rparr>
      else if op i = ''move'' then \<lparr>op = ''store'', args = args i\<rparr>
      else \<lparr>op = ''unknown'', args = args i\<rparr>)"

definition convertAndroidART :: "jsval \<Rightarrow> js_error + intermediate" where
  "convertAndroidART artBytecode =
     Inr \<lparr>i_type = ''android-art'',
          i_functions =
            [\<lparr>f_name = ''methodFromART'',
              f_instructions = map convertARTInstruction
                [\<lparr>op = ''invoke-virtual'', args = [''v0'', ''method'']\<rparr>,
                 \<lparr>op = ''return-void'', args = []\<rparr>],
              f_optimizations = [''inline'', ''devirtualize'']\<rparr>]\<rparr>"

text \<open>\<open>/\(func[^)]*\)/g\<close>; every match becomes a function with the same two
  instructions.\<close>

definition wasm_func_re :: re where
  "wasm_func_re = Seqs [Lit ''(func'', Star (none_of '')''), Chr CHR '')'']"

definition convertWASMInstruction :: "instruction \<Rightarrow> instruction" where
  "convertWASMInstruction i =
     (if op i = ''local.get''
      then \<lparr>op = ''load'', args = [''param'' @ (case args i of [] \<Rightarrow> ''undefined'' | a # _ \<Rightarrow> a)]\<rparr>
      else if op i = ''i32.add'' then \<lparr>op = ''add'', args = [''result'', ''a'', ''b'']\<rparr>
      else if op i = ''return'' then \<lparr>op = ''return'', args = [''result'']\<rparr>
      else \<lparr>op = ''unknown'', args = args i\<rparr>)"

definition convertWebAssembly :: "jsval \<Rightarrow> js_error + intermediate" where
  "convertWebAssembly wasmCode =
     (let wasmText = (case wasmCode of JStr text \<Rightarrow> text | _ \<Rightarrow> ''(module)'');
          funcMatches = match_all wasm_func_re wasmText
      in Inr \<lparr>i_type = ''wasm'',
              i_functions =
                map (\<lambda>index.
                       \<lparr>f_name = ''wasmFunc'' @ show_nat index,
                        f_instructions = map convertWASMInstruction
                          [\<lparr>op = ''local.get'', args = [''0'']\<rparr>, \<lparr>op = ''i32.add'', args = []\<rparr>],
                        f_optimizations =
                          filter (\<lambda>opt. str_includes wasmText (drop 5 opt)) [''wasm-simd'', ''wasm-threads'']\<rparr>)
                    [0..<length funcMatches]\<rparr>)"

text \<open>\<open>parseHotSpotMethods\<close>, \<open>parseILMethods\<close>, \<open>parseV8Bytecode\<close> and
  \<open>parseAssemblyFunctions\<close> return the empty list whatever the input is, so the
  loops over their results add no function; \<open>convertGenericJSEngine\<close> returns an
  object with no function.\<close>

definition convertJavaHotSpot :: "jsval \<Rightarrow> js_error + intermediate" where
  "convertJavaHotSpot hotspotCode = Inr \<lparr>i_type = ''java-hotspot'', i_functions = []\<rparr>"

definition convertDotNetCLR :: "jsval \<Rightarrow> js_error + intermediate" where
  "convertDotNetCLR clrIL = Inr \<lparr>i_type = ''dotnet-clr'', i_functions = []\<rparr>"

definition convertV8Bytecode :: "jsval \<Rightarrow> js_error + intermediate" where
  "convertV8Bytecode v8Bytecode = Inr \<lparr>i_type = ''v8-bytecode'', i_functions = []\<rparr>"

definition convertGenericJSEngine :: "jsval \<Rightarrow> string \<Rightarrow> js_error + intermediate" where
  "convertGenericJSEngine bytecode engine = Inr \<lparr>i_type = engine, i_functions = []\<rparr>"

definition convertSpiderMonkey :: "jsval \<Rightarrow> js_error + intermediate" where
  "convertSpiderMonkey smBytecode = convertGenericJSEngine smBytecode ''spidermonkey''"

definition convertChakra :: "jsval \<Rightarrow> js_error + intermediate" where
  "convertChakra chakraBytecode = convertGenericJSEngine chakraBytecode ''chakra''"

definition convertAssembly :: "jsval \<Rightarrow> js_error + intermediate" where
  "convertAssembly assembly = Inr \<lparr>i_type = ''assembly'', i_functions = []\<rparr>"

definition supportedFormats :: "(string \<times> (jsval \<Rightarrow> js_error + intermediate)) list" where
  "supportedFormats =
     [(''ios-llvm'', convertIOSLLVM),
      (''android-art'', convertAndroidART),
      (''wasm'', convertWebAssembly),
      (''java-hotspot'', convertJavaHotSpot),
      (''dotnet-clr'', convertDotNetCLR),
      (''v8-bytecode'', convertV8Bytecode),
      (''spidermonkey'', convertSpiderMonkey),
      (''chakra'', convertChakra),
      (''assembly'', convertAssembly)]"

subsection \<open>Emitting the target code\<close>

definition arg :: "string list \<Rightarrow> nat \<Rightarrow> string" where
  "arg as i = (if i < length as then as ! i else ''undefined'')"

definition convertInstructionToJS :: "instruction \<Rightarrow> string" where
  "convertInstructionToJS instruction =
     (let as = args instruction in
      if op instruction = ''load'' then ''var '' @ arg as 0 @ '' = '' @ arg as 1 @ '';''
      else if op instruction = ''store'' then arg as 0 @ '' = '' @ arg as 1 @ '';''
      else if op instruction = ''add'' then ''var '' @ arg as 0 @ '' = '' @ arg as 1 @ '' + '' @ arg as 2 @ '';''
      else if op instruction = ''sub'' then ''var '' @ arg as 0 @ '' = '' @ arg as 1 @ '' - '' @ arg as 2 @ '';''
      else if op instruction = ''mul'' then ''var '' @ arg as 0 @ '' = '' @ arg as 1 @ '' * '' @ arg as 2 @ '';''
      else if op instruction = ''div'' then ''var '' @ arg as 0 @ '' = '' @ arg as 1 @ '' / '' @ arg as 2 @ '';''
      else if op instruction = ''call'' then arg as 0 @ ''('' @ join '', '' (drop 1 as) @ '');''
      else if op instruction = ''return'' then ''return '' @ (case as of [] \<Rightarrow> [] | a # _ \<Rightarrow> a) @ '';''
      else if op instruction = ''branch'' then ''if ('' @ arg as 0 @ '') { /* branch logic */ }''
      else if op instruction = ''loop''
        then ''for (var i = 0; i < '' @ arg as 0 @ ''; i++) { /* loop body */ }''
      else ''// Unknown instruction: '' @ op instruction)"

text \<open>\<open>inferParameters\<close>: the second arguments of the \<open>load\<close> instructions that
  start with \<open>param\<close>, each once, in the order of their first occurrence.\<close>

definition inferParameters :: "instruction list \<Rightarrow> string list" where
  "inferParameters instructions =
     rev (remdups (rev
       (concat (map (\<lambda>inst. if op inst = ''load'' \<and> 1 < length (args inst) \<and>
                                 prefix ''param'' (args inst ! 1)
                              then [args inst ! 1] else []) instructions))))"

definition convertFunctionToJS :: "ir_function \<Rightarrow> string \<Rightarrow> string" where
  "convertFunctionToJS func sourceType =
     ''// Function: '' @ f_name func @ '' (from '' @ sourceType @ '')\<newline>'' @
     ''function '' @ f_name func @ ''('' @
     join '', '' (inferParameters (f_instructions func)) @
     '') {\<newline>'' @
     concat (map (\<lambda>instruction. ''  '' @ convertInstructionToJS instruction @ ''\<newline>'')
                 (f_instructions func)) @
     ''}'' @
     (if length (f_optimizations func) > 0
      then ''\<newline>// Optimizations: '' @ join '', '' (f_optimizations func)
      else [])"

definition generateV8OptimizationHints :: "intermediate \<Rightarrow> string" where
  "generateV8OptimizationHints im =
     (let optimizations = concat (map f_optimizations (i_functions im)) in
      ''// V8 Optimization Hints\<newline>'' @
      [CHR 0x27] @ ''use strict'' @ [CHR 0x27] @ '';\<newline>\<newline>'' @
      (if ''inline'' \<in> set optimizations \<or> ''inlining'' \<in> set optimizations
       then ''// Enable function inlining\<newline>'' @
            ''function __enableInlining() { return true; }\<newline>\<newline>''
       else []) @
      (if ''loop'' \<in> set optimizations \<or> ''vectorize'' \<in> set optimizations
       then ''// Enable loop optimizations\<newline>'' @
            ''function __enableLoopOpts() { return true; }\<newline>\<newline>''
       else []))"

definition generatePerformanceWrapper :: string where
  "generatePerformanceWrapper =
     ''\<newline>'' @
     ''// Performance measurement wrapper\<newline>'' @
     ''function measurePerformance(func, iterations = 1000) {\<newline>'' @
     ''  const start = process.hrtime();\<newline>'' @
     ''  for (let i = 0; i < iterations; i++) {\<newline>'' @
     ''    func();\<newline>'' @
     ''  }\<newline>'' @
     ''  const [seconds, nanoseconds] = process.hrtime(start);\<newline>'' @
     ''  return (seconds * 1000) + (nanoseconds / 1000000);\<newline>'' @
     ''}\<newline>''"

text \<open>\<open>[...new Set(allOpts)]\<close>: each optimisation once, in the order of its first
  occurrence.\<close>

definition consolidateOptimizations :: "intermediate \<Rightarrow> string list" where
  "consolidateOptimizations im = rev (remdups (rev (concat (map f_optimizations (i_functions im)))))"

definition convertToNodeJS :: "nat \<Rightarrow> intermediate \<Rightarrow> conversion" where
  "convertToNodeJS now im =
     (let jsCode = ''// Generated by JITPhone JIT Converter\<newline>'' @
                   ''// Source: '' @ i_type im @ ''\<newline>'' @
                   ''// Target: Node.js V8\<newline>\<newline>'' @
                   generateV8OptimizationHints im @
                   concat (map (\<lambda>func. convertFunctionToJS func (i_type im) @ ''\<newline>\<newline>'')
                               (i_functions im)) @
                   generatePerformanceWrapper
      in \<lparr>c_success = True, c_code = jsCode, c_optimizations = consolidateOptimizations im,
          c_sourceFormat = i_type im, c_targetFormat = ''nodejs'', c_conversionTime = now,
          c_preservedOptimizations = []\<rparr>)"

subsection \<open>convert\<close>

definition convert_generateCacheKey :: "jsval \<Rightarrow> string \<Rightarrow> (string \<times> jsval) list \<Rightarrow> string" where
  "convert_generateCacheKey instructions sourceFormat options =
     md5_hex (JSON_stringify (JObj [(''instructions'', instructions),
                                    (''sourceFormat'', JStr sourceFormat),
                                    (''options'', JObj options)]))"

text \<open>
  A source format that names a member of \<open>Object.prototype\<close> passes the check
  \<open>!this.supportedFormats[sourceFormat]\<close>, and that member is then called as the
  lowering function. The model follows two of them. \<open>constructor\<close> is \<open>Object\<close>,
  which returns an object argument as it is: instructions that are an object with an
  empty \<open>functions\<close> array are then emitted as an intermediate object; without a
  \<open>functions\<close> property, and for instructions that are no object, reading
  \<open>functions.flatMap\<close> throws. \<open>toString\<close> returns a string, on which reading
  \<open>functions.flatMap\<close> throws. Other members and other shapes of instructions are
  outside the model (\<open>None\<close>). The messages are the engine's wording.
\<close>

definition inherited_lowering :: "string \<Rightarrow> jsval \<Rightarrow> (js_error + intermediate) option" where
  "inherited_lowering sourceFormat instructions =
     (if sourceFormat = ''constructor'' then
        (case instructions of
           JObj ps \<Rightarrow>
             (case opt_get ps ''functions'' of
                JArr [] \<Rightarrow> Some (Inr \<lparr>i_type = to_string (opt_get ps ''type''), i_functions = []\<rparr>)
              | JUndefined \<Rightarrow>
                  Some (Inl (TypeError ''Cannot read properties of undefined (reading 'flatMap')''))
              | _ \<Rightarrow> None)
         | _ \<Rightarrow> Some (Inl (TypeError ''Cannot read properties of undefined (reading 'flatMap')'')))
      else if sourceFormat = ''toString'' then
        Some (Inl (TypeError ''Cannot read properties of undefined (reading 'flatMap')''))
      else None)"

definition unsupported_message :: "string \<Rightarrow> string" where
  "unsupported_message sourceFormat =
     ''Unsupported source format: '' @ sourceFormat @ ''. Supported: '' @
     join '', '' (map fst supportedFormats)"

definition convert ::
  "nat \<Rightarrow> converter_state \<Rightarrow> jsval \<Rightarrow> string \<Rightarrow> (string \<times> jsval) list
     \<Rightarrow> ((js_error + conversion) \<times> converter_state) option" where
  "convert now st instructions sourceFormat options =
     (let cache = with_default (opt_get options ''cache'') (JBool True) in
      case js_lookup supportedFormats sourceFormat of
        Missing \<Rightarrow> Some (Inl (Error (unsupported_message sourceFormat)), st)
      | found \<Rightarrow>
        (let cacheKey = convert_generateCacheKey instructions sourceFormat options in
         case (if truthy cache then conversionCache st cacheKey else None) of
           Some hit \<Rightarrow> Some (Inr hit, st\<lparr>conv_cacheHits := conv_cacheHits st + 1\<rparr>)
         | None \<Rightarrow>
             (case (case found of
                      Own lower \<Rightarrow> Some (lower instructions)
                    | Inherited \<Rightarrow> inherited_lowering sourceFormat instructions
                    | Missing \<Rightarrow> None) of
                None \<Rightarrow> None
              | Some (Inl error) \<Rightarrow>
                  Some (Inl (Error (''JIT conversion failed: '' @ message error)), st)
              | Some (Inr im) \<Rightarrow>
                  (let result = convertToNodeJS now im in
                   Some (Inr result,
                         st\<lparr>conversionCache :=
                              (if truthy cache then (conversionCache st)(cacheKey \<mapsto> result)
                               else conversionCache st),
                            conversions := conversions st + 1\<rparr>)))))"

subsection \<open>Requests and histories\<close>






section \<open>Properties of the regular-expression model\<close>

text \<open>A global replace whose callback returns the match leaves the text as it is.\<close>

lemma replace_go_same: "replace_go r (\<lambda>m cp. m) bef s = s"
proof (induction r "\<lambda>(m::string) (cp::nat \<rightharpoonup> string). m" bef s rule: replace_go.induct)
  case (1 r bef s)
  show ?case
  proof (cases "match_here r bef s")
    case None
    then show ?thesis using 1(1) by (subst replace_go.simps) (auto split: list.splits)
  next
    case (Some a)
    obtain n cp where a: "a = (n, cp)" by (cases a)
    show ?thesis
    proof (cases s)
      case Nil
      then show ?thesis using Some a by (subst replace_go.simps) simp
    next
      case (Cons c cs)
      show ?thesis
      proof (cases "n = 0")
        case True
        then show ?thesis using Some a Cons 1(2)[OF Some[unfolded a] refl Cons True]
          by (subst replace_go.simps) simp
      next
        case False
        then show ?thesis using Some a Cons 1(3)[OF Some[unfolded a] refl Cons False]
          by (subst replace_go.simps) simp
      qed
    qed
  qed
qed

subsection \<open>Printing numbers\<close>




text \<open>A global replace on a text in which the pattern matches nowhere.\<close>

lemma replace_go_no_match:
  assumes "\<And>bef k. match_here r bef (replicate k c) = None"
  shows "replace_go r f bef (replicate n c) = replicate n c"
proof (induction n arbitrary: bef)
  case 0
  show ?case using assms [of bef 0] by (subst replace_go.simps) simp
next
  case (Suc n)
  show ?case using assms [of bef "Suc n"] Suc.IH by (subst replace_go.simps) simp
qed

section \<open>Properties of the optimisation pipeline\<close>

text \<open>
  C9. For every code string, \<open>optimize(code, 'O0')\<close> returns the code unchanged: level
  O0 enables no pass, and the optimisation stage is the identity at that level.
\<close>

theorem optimize_O0_identity: "optimize code ''O0'' = Inr code"
  by (simp add: optimize_def js_lookup_def optimizationLevels_def)

theorem optimize_O0_identity_witness: "optimize ''1 + 2'' ''O0'' = Inr ''1 + 2''"
  using optimize_O0_identity [of "''1 + 2''"] by simp

text \<open>
  C2, as stated: \<open>optimize(optimize(code, L), L) = optimize(code, L)\<close> for every code
  and level. It fails at level O1 on \<open>1 + 2 + 3\<close>: constant folding rewrites one pair
  of adjacent literals per sweep, so the first application gives \<open>3 + 3\<close> and the
  second gives \<open>6\<close>.
\<close>

theorem optimize_not_idempotent_counterexample:
  "optimize ''1 + 2 + 3'' ''O1'' = Inr ''3 + 3'' \<and> optimize_twice ''1 + 2 + 3'' ''O1'' = Inr ''6''"
  by code_simp

text \<open>
  C2, amended: \<open>optimize\<close> is idempotent at level O0, for every code string, and the
  loop-opt pass returns every input unchanged, hence is idempotent.
\<close>

theorem optimize_idempotent_O0_loop:
  "optimize_twice code ''O0'' = optimize code ''O0'' \<and>
   loopOptimization (loopOptimization code) = loopOptimization code \<and>
   loopOptimization code = code"
  by (simp add: optimize_twice_def optimize_def js_lookup_def optimizationLevels_def
      loopOptimization_def replace_all_def replace_go_same)

theorem optimize_idempotent_O0_loop_witness:
  "optimize_twice ''for (;;) {}'' ''O0'' = optimize ''for (;;) {}'' ''O0'' \<and>
   loopOptimization (loopOptimization ''for (;;) {}'') = loopOptimization ''for (;;) {}'' \<and>
   loopOptimization ''for (;;) {}'' = ''for (;;) {}''"
  using optimize_idempotent_O0_loop [of "''for (;;) {}''"] by simp

section \<open>Properties of compile\<close>








section \<open>Properties of execute\<close>




section \<open>Properties of the platform adapter\<close>

subsection \<open>The compatibility verdict\<close>







subsection \<open>The size limit\<close>

lemma wrap_length: "length (wrapForIOSExecution code target) = 861 + length code + length target"
  by (simp add: wrapForIOSExecution_def)

lemma optimizeForIOS_truncates:
  assumes "truthy optimizeForSize" "length (strip_for_size adapted) > maxCodeSize"
  shows "optimizeForIOS adapted optimizeForSize =
           take (maxCodeSize - 100) (strip_for_size adapted) @ ''\<newline>// TRUNCATED''"
  using assms by (simp add: optimizeForIOS_def Let_def)

text \<open>
  C5. With \<open>optimizeForSize\<close> set, an adapted code that is still longer than the limit
  after the size optimisation is cut to \<open>maxCodeSize - 100\<close> characters and gets the
  marker \<open>// TRUNCATED\<close>, which is within the limit; but the execution wrapper is put
  around it afterwards, so the final output of the adaptation has \<open>maxCodeSize + 774\<close>
  characters plus the target's name, and the verdict computed on it is incompatible.
\<close>

theorem truncated_output_exceeds_limit:
  assumes "truthy optimizeForSize" "length (strip_for_size adapted) > maxCodeSize"
  shows "optimizeForIOS adapted optimizeForSize =
           take (maxCodeSize - 100) (strip_for_size adapted) @ ''\<newline>// TRUNCATED'' \<and>
         length (optimizeForIOS adapted optimizeForSize) = maxCodeSize - 87 \<and>
         length (wrapForIOSExecution (optimizeForIOS adapted optimizeForSize) target)
           = maxCodeSize + 774 + length target \<and>
         \<not> compatible (validateIOSCompatibility
               (wrapForIOSExecution (optimizeForIOS adapted optimizeForSize) target))"
proof -
  have a: "optimizeForIOS adapted optimizeForSize =
           take (maxCodeSize - 100) (strip_for_size adapted) @ ''\<newline>// TRUNCATED''"
    by (rule optimizeForIOS_truncates [OF assms])
  have b: "length (optimizeForIOS adapted optimizeForSize) = maxCodeSize - 87"
    using assms(2) by (simp add: a maxCodeSize_def)
  have c: "length (wrapForIOSExecution (optimizeForIOS adapted optimizeForSize) target)
           = maxCodeSize + 774 + length target"
    by (simp add: wrap_length b maxCodeSize_def)
  have d: "\<not> compatible (validateIOSCompatibility
               (wrapForIOSExecution (optimizeForIOS adapted optimizeForSize) target))"
    by (simp add: validateIOSCompatibility_def Let_def c)
  show ?thesis using a b c d by blast
qed

lemma no_block_comment: "match_here block_comment_re bef (replicate k CHR ''a'') = None"
  by (cases k) (simp_all add: match_here_def block_comment_re_def step_if_def)

lemma no_line_comment: "match_here line_comment_re bef (replicate k CHR ''a'') = None"
  by (cases k) (simp_all add: match_here_def line_comment_re_def step_if_def)

lemma no_space: "match_here ws1 bef (replicate k CHR ''a'') = None"
  by (cases k) (simp_all add: match_here_def ws1_def Plus_def space_def step_if_def is_space_def)

lemma strip_for_size_letters: "strip_for_size (replicate n CHR ''a'') = replicate n CHR ''a''"
  by (simp add: strip_for_size_def replace_tpl_def replace_all_def replace_go_no_match
      no_block_comment no_line_comment no_space)

theorem truncated_output_exceeds_limit_witness:
  "length (optimizeForIOS (replicate 1048577 CHR ''a'') (JBool True)) = 1048489 \<and>
   length (wrapForIOSExecution (optimizeForIOS (replicate 1048577 CHR ''a'') (JBool True)) ''shortcuts'')
     = 1049359 \<and>
   \<not> compatible (validateIOSCompatibility
        (wrapForIOSExecution (optimizeForIOS (replicate 1048577 CHR ''a'') (JBool True)) ''shortcuts''))"
proof -
  have h1: "truthy (JBool True)" by simp
  have h2: "length (strip_for_size (replicate 1048577 CHR ''a'')) > maxCodeSize"
    by (simp add: strip_for_size_letters maxCodeSize_def)
  note t = truncated_output_exceeds_limit [OF h1 h2, of "''shortcuts''"]
  have a: "length (optimizeForIOS (replicate 1048577 CHR ''a'') (JBool True)) = maxCodeSize - 87"
    using t by blast
  have b: "length (wrapForIOSExecution (optimizeForIOS (replicate 1048577 CHR ''a'') (JBool True)) ''shortcuts'')
     = maxCodeSize + 774 + length ''shortcuts''"
    using t by blast
  have c: "\<not> compatible (validateIOSCompatibility
        (wrapForIOSExecution (optimizeForIOS (replicate 1048577 CHR ''a'') (JBool True)) ''shortcuts''))"
    using t by blast
  show ?thesis using a b c by (simp add: maxCodeSize_def)
qed

section \<open>Determinism of the pipeline\<close>


















end
